theory Spec2Isabelle
  imports Main
begin

section \<open>Data model\<close>

text \<open>
  A JavaScript string is a sequence of UTF-16 code units, each a natural number below
  65536. \<open>str\<close> writes one from an ASCII literal.
\<close>

type_synonym jstring = "nat list"

definition str :: "string \<Rightarrow> jstring" where
  "str s = map of_char s"

text \<open>
  The rows of the two tables, as the client code and the schema declare them.
  Timestamps are natural numbers (milliseconds), identifiers are strings.
\<close>

datatype status = Pending | Verified | Rejected

datatype sender = User | Admin | System

datatype message_type = Text | Code_attempt

text \<open>
  JavaScript values that flow into \<open>isCorrect\<close>: \<open>a && b\<close> yields \<open>a\<close> itself
  when \<open>a\<close> is falsy, so the flag is either a boolean or the empty string.
\<close>

datatype jsval = JBool bool | JStr jstring

fun truthy :: "jsval \<Rightarrow> bool" where
  "truthy (JBool b) = b"
| "truthy (JStr s) = (s \<noteq> [])"

definition js_and :: "jsval \<Rightarrow> jsval \<Rightarrow> jsval" where
  "js_and a b = (if truthy a then b else a)"

definition or_str :: "jstring \<Rightarrow> jstring \<Rightarrow> jstring" where
  \<comment> \<open>\<open>a || b\<close> on strings\<close>
  "or_str a b = (if a \<noteq> [] then a else b)"

record VerificationSession =
  vs_id :: jstring
  mc_name :: jstring
  email :: jstring
  code :: jstring
  status :: status
  created_at :: nat
  updated_at :: nat
  is_online :: bool

text \<open>A row of \<open>chat_messages\<close>; \<open>is_correct BOOLEAN DEFAULT NULL\<close>.\<close>

record ChatMessage =
  cm_id :: jstring
  session_id :: jstring
  cm_sender :: sender
  cm_message :: jstring
  cm_message_type :: message_type
  cm_is_correct :: "bool option"
  cm_created_at :: nat

text \<open>
  The message objects held in component state. The optional fields
  \<open>message_type\<close> and \<open>is_correct\<close> are \<open>None\<close> when the object does not carry them.
\<close>

record LocalMessage =
  lm_id :: jstring
  lm_sender :: sender
  lm_message :: jstring
  lm_created_at :: nat
  lm_message_type :: "message_type option"
  lm_is_correct :: "jsval option"

section \<open>The hosted store and the effects a handler issues\<close>

text \<open>The columns a client sends with an insert into \<open>chat_messages\<close>.\<close>

record message_payload =
  p_id :: "jstring option"
  p_session_id :: "jstring option"
  p_sender :: sender
  p_message :: jstring
  p_message_type :: "message_type option"
  p_is_correct :: "jsval option"

datatype event =
    New_message LocalMessage
  | Code_attempt_event jstring jsval
  | Chat_ended

datatype effect =
    Insert_session jstring jstring status
  | Select_sessions
  | Select_code "jstring option"
  | Select_messages jstring bool
  | Insert_message message_payload
  | Update_status "jstring option" status nat
  | Delete_messages jstring
  | Delete_session jstring
  | Broadcast jstring event
  | Wait nat

text \<open>
  The world outside the components: the two tables and the effects issued so far,
  oldest first.
\<close>

record world =
  verification_sessions :: "VerificationSession list"
  chat_messages :: "ChatMessage list"
  trace :: "effect list"

text \<open>
  What the environment supplies to one handler run: the client's
  \<open>crypto.randomUUID()\<close> and \<open>new Date()\<close>, and the store's \<open>uuid_generate_v4()\<close> and \<open>NOW()\<close>.
\<close>

record env =
  randomUUID :: jstring
  now :: nat
  db_uuid :: jstring
  db_now :: nat

text \<open>
  Whether a request reaches the backend and passes what the client cannot see (the
  network, the access policies, the conversion of the values sent to the column types) is
  not decided by the client: it is the parameter \<open>net\<close>. A refused request leaves the
  tables as they are, and no handler looks at the error of a write.
\<close>

type_synonym net = "effect \<Rightarrow> bool"

definition emit :: "effect \<Rightarrow> world \<Rightarrow> world" where
  "emit e W = W\<lparr>trace := trace W @ [e]\<rparr>"

definition remote_write :: "net \<Rightarrow> effect \<Rightarrow> (world \<Rightarrow> world) \<Rightarrow> world \<Rightarrow> world" where
  "remote_write net e f W = (if net e then f (emit e W) else emit e W)"

definition issued :: "world \<Rightarrow> world \<Rightarrow> effect list" where
  \<comment> \<open>the effects added between two worlds\<close>
  "issued W W' = drop (length (trace W)) (trace W')"

definition single :: "'a list \<Rightarrow> 'a option" where
  \<comment> \<open>\<open>.single()\<close>: exactly one row, anything else is an error\<close>
  "single xs = (case xs of [x] \<Rightarrow> Some x | _ \<Rightarrow> None)"

definition row_of :: "env \<Rightarrow> message_payload \<Rightarrow> ChatMessage" where
  \<comment> \<open>the row an insert creates, with the column defaults of the schema: generated id,
      \<open>'text'\<close>, \<open>NOW()\<close>\<close>
  "row_of ev p =
     \<lparr> cm_id = (case p_id p of Some i \<Rightarrow> i | None \<Rightarrow> db_uuid ev),
       session_id = (case p_session_id p of Some s \<Rightarrow> s | None \<Rightarrow> []),
       cm_sender = p_sender p,
       cm_message = p_message p,
       cm_message_type = (case p_message_type p of Some t \<Rightarrow> t | None \<Rightarrow> Text),
       cm_is_correct = (case p_is_correct p of Some (JBool b) \<Rightarrow> Some b | _ \<Rightarrow> None),
       cm_created_at = db_now ev \<rparr>"

fun boolean_column :: "jsval option \<Rightarrow> bool" where
  \<comment> \<open>\<open>is_correct BOOLEAN\<close> takes a boolean or no value; the string that a client of
      this repository can send for it is the empty one, which is no boolean\<close>
  "boolean_column None = True"
| "boolean_column (Some (JBool _)) = True"
| "boolean_column (Some (JStr _)) = False"

definition db_insert_message :: "env \<Rightarrow> message_payload \<Rightarrow> world \<Rightarrow> world" where
  \<comment> \<open>\<open>session_id UUID NOT NULL REFERENCES verification_sessions(id)\<close> and
      \<open>is_correct BOOLEAN\<close>: an insert that breaks one of them is refused\<close>
  "db_insert_message ev p W =
     (case p_session_id p of
        None \<Rightarrow> W
      | Some sid \<Rightarrow>
          if sid \<in> set (map vs_id (verification_sessions W)) \<and> boolean_column (p_is_correct p)
          then W\<lparr>chat_messages := chat_messages W @ [row_of ev p]\<rparr>
          else W)"

definition db_update_status :: "jstring option \<Rightarrow> status \<Rightarrow> nat \<Rightarrow> world \<Rightarrow> world" where
  \<comment> \<open>the trigger \<open>update_updated_at_column\<close> writes the store's \<open>NOW()\<close> over the
      \<open>updated_at\<close> that the client sent\<close>
  "db_update_status sid st t W =
     W\<lparr>verification_sessions :=
         map (\<lambda>s. if Some (vs_id s) = sid then s\<lparr>status := st, updated_at := t\<rparr> else s)
             (verification_sessions W)\<rparr>"

definition db_delete_messages :: "jstring \<Rightarrow> world \<Rightarrow> world" where
  "db_delete_messages sid W =
     W\<lparr>chat_messages := filter (\<lambda>m. session_id m \<noteq> sid) (chat_messages W)\<rparr>"

definition db_delete_session :: "jstring \<Rightarrow> world \<Rightarrow> world" where
  \<comment> \<open>\<open>session_id ... REFERENCES verification_sessions(id) ON DELETE CASCADE\<close>\<close>
  "db_delete_session sid W =
     W\<lparr>verification_sessions := filter (\<lambda>s. vs_id s \<noteq> sid) (verification_sessions W),
       chat_messages := filter (\<lambda>m. session_id m \<noteq> sid) (chat_messages W)\<rparr>"

definition db_select_code :: "jstring option \<Rightarrow> world \<Rightarrow> jstring option" where
  \<comment> \<open>\<open>.select('code').eq('id', sessionId).single()\<close>\<close>
  "db_select_code sid W =
     map_option code (single (filter (\<lambda>s. Some (vs_id s) = sid) (verification_sessions W)))"

definition db_select_messages :: "jstring \<Rightarrow> bool \<Rightarrow> world \<Rightarrow> ChatMessage list" where
  \<comment> \<open>\<open>.eq('session_id', sid)\<close>, optionally \<open>.neq('message_type', 'code_attempt')\<close>,
      \<open>.order('created_at', { ascending: true })\<close>\<close>
  "db_select_messages sid no_attempts W =
     sort_key cm_created_at
       (filter (\<lambda>m. session_id m = sid \<and> (no_attempts \<longrightarrow> cm_message_type m \<noteq> Code_attempt))
               (chat_messages W))"

definition remote_read :: "net \<Rightarrow> effect \<Rightarrow> 'a option \<Rightarrow> world \<Rightarrow> 'a option \<times> world" where
  \<comment> \<open>a refused read gives \<open>data = null\<close>\<close>
  "remote_read net e r W = ((if net e then r else None), emit e W)"

section \<open>The verification wizard\<close>

datatype wstep = Welcome | Form

record formData =
  mcName :: jstring
  fd_email :: jstring
  fd_code :: jstring

record wizard =
  step :: wstep
  formStep :: nat
  formData :: formData
  sessionId :: "jstring option"
  isVerifying :: bool
  isProcessing :: bool
  isSuccess :: bool
  isChatOpen :: bool
  unreadCount :: nat
  codeError :: bool
  timeouts :: nat  \<comment> \<open>pending 30000 ms timers of \<open>handleNext\<close>\<close>

definition channel_name :: "jstring option \<Rightarrow> jstring" where
  \<comment> \<open>the template string \<open>chat-${sessionId}\<close>\<close>
  "channel_name sid = str ''chat-'' @ (case sid of Some s \<Rightarrow> s | None \<Rightarrow> (str ''null''))"

definition isCorrect :: "jstring option \<Rightarrow> jstring \<Rightarrow> jsval" where
  \<comment> \<open>\<open>correctCode = sessionData?.code || ''\<close>;
      \<open>isCorrect = correctCode && formData.code === correctCode\<close>\<close>
  "isCorrect sessionData submitted =
     (let correctCode = or_str (case sessionData of Some c \<Rightarrow> c | None \<Rightarrow> []) []
      in js_and (JStr correctCode) (JBool (submitted = correctCode)))"

definition attempt_payload :: "wizard \<Rightarrow> jsval \<Rightarrow> message_payload" where
  "attempt_payload w ok =
     \<lparr> p_id = None, p_session_id = sessionId w, p_sender = System,
       p_message = fd_code (formData w), p_message_type = Some Code_attempt,
       p_is_correct = Some ok \<rparr>"

definition handleSubmit :: "net \<Rightarrow> env \<Rightarrow> wizard \<times> world \<Rightarrow> wizard \<times> world" where
  "handleSubmit net ev = (\<lambda>(w, W).
     let w1 = w\<lparr>isVerifying := True\<rparr>;
         (sessionData, W1) =
            remote_read net (Select_code (sessionId w)) (db_select_code (sessionId w) W) W;
         ok = isCorrect sessionData (fd_code (formData w));
         W2 = remote_write net (Insert_message (attempt_payload w ok))
                (db_insert_message ev (attempt_payload w ok)) W1;
         W3 = emit (Broadcast (channel_name (sessionId w))
                      (Code_attempt_event (fd_code (formData w)) ok)) W2
     in if truthy ok then
          let W4 = remote_write net (Update_status (sessionId w) Verified (now ev))
                     (db_update_status (sessionId w) Verified (db_now ev)) W3;
              W5 = emit (Wait 1000) W4
          in (w1\<lparr>isVerifying := False, codeError := False, isSuccess := True\<rparr>, W5)
        else
          let W4 = emit (Wait 1000) W3
          in (w1\<lparr>isVerifying := False, codeError := True,
                 formData := (formData w1)\<lparr>fd_code := []\<rparr>\<rparr>, W4))"

definition db_insert_session :: "env \<Rightarrow> jstring \<Rightarrow> jstring \<Rightarrow> status \<Rightarrow> VerificationSession" where
  \<comment> \<open>the row an accepted insert creates; the other columns take the schema's defaults\<close>
  "db_insert_session ev e c st =
     \<lparr> vs_id = db_uuid ev, mc_name = [], email = e, code = c, status = st,
       created_at = db_now ev, updated_at = db_now ev, is_online = False \<rparr>"

definition createSessionWithEmail ::
  "net \<Rightarrow> env \<Rightarrow> jstring \<Rightarrow> wizard \<times> world \<Rightarrow> jstring option \<times> wizard \<times> world" where
  \<comment> \<open>\<open>.insert({email, code: '', status: 'pending'}).select().single()\<close>;
      \<open>if (!error && data) { setSessionId(data.id); return data.id; } return null\<close>\<close>
  "createSessionWithEmail net ev e = (\<lambda>(w, W).
     let req = Insert_session e [] Pending;
         row = db_insert_session ev e [] Pending;
         W1 = remote_write net req
                (\<lambda>V. V\<lparr>verification_sessions := verification_sessions V @ [row]\<rparr>) W;
         data = (if net req then Some row else None)
     in case data of
          Some r \<Rightarrow> (Some (vs_id r), w\<lparr>sessionId := Some (vs_id r)\<rparr>, W1)
        | None \<Rightarrow> (None, w, W1))"

definition handleNext :: "net \<Rightarrow> env \<Rightarrow> wizard \<times> world \<Rightarrow> wizard \<times> world" where
  "handleNext net ev = (\<lambda>(w, W).
     if formStep w = 0 then (w\<lparr>formStep := 1\<rparr>, W)
     else if formStep w = 1 then
       (let w1 = w\<lparr>isProcessing := True\<rparr>;
            (newSessionId, w2, W2) = createSessionWithEmail net ev (fd_email (formData w)) (w1, W)
        in if (case newSessionId of Some i \<Rightarrow> i \<noteq> [] | None \<Rightarrow> False)
           then (w2\<lparr>timeouts := timeouts w2 + 1\<rparr>, W2)
           else (w2\<lparr>isProcessing := False\<rparr>, W2))
     else handleSubmit net ev (w, W))"

definition timeout_fires :: "wizard \<Rightarrow> wizard" where
  \<comment> \<open>the callback of the 30000 ms timer: \<open>setIsProcessing(false); setFormStep(2)\<close>\<close>
  "timeout_fires w =
     (if timeouts w = 0 then w
      else w\<lparr>timeouts := timeouts w - 1, isProcessing := False, formStep := 2\<rparr>)"

text \<open>What \<open>VerificationPage\<close> renders, as far as the wizard is concerned.\<close>

datatype field = McName_field | Email_field | Code_field

definition steps :: "nat \<Rightarrow> field option" where
  \<comment> \<open>\<open>steps[formStep].field\<close>; past the end of the array there is no entry\<close>
  "steps i = (if i = 0 then Some McName_field else if i = 1 then Some Email_field
              else if i = 2 then Some Code_field else None)"

datatype hint = Invalid_code_contact_support | Didnt_receive_code_contact_support

datatype view =
    Success_view
  | Welcome_view
  | Processing_view
  | Form_view nat jstring "hint option"  \<comment> \<open>step, value of the input, text under it\<close>
  | Render_error

definition render :: "wizard \<Rightarrow> view" where
  "render w =
     (if isSuccess w then Success_view
      else if step w = Welcome then Welcome_view
      else if isProcessing w then Processing_view
      else case steps (formStep w) of
             None \<Rightarrow> Render_error
           | Some McName_field \<Rightarrow> Form_view (formStep w) (mcName (formData w)) None
           | Some Email_field \<Rightarrow> Form_view (formStep w) (fd_email (formData w)) None
           | Some Code_field \<Rightarrow>
               Form_view (formStep w) (fd_code (formData w))
                 (Some (if codeError w then Invalid_code_contact_support
                        else Didnt_receive_code_contact_support)))"

fun is_form_view :: "view \<Rightarrow> bool" where
  "is_form_view (Form_view _ _ _) = True"
| "is_form_view _ = False"

definition next_disabled :: "wizard \<Rightarrow> bool" where
  \<comment> \<open>\<open>disabled={!formData[currentStepData.field]}\<close>, \<open>loading={isVerifying}\<close>\<close>
  "next_disabled w =
     (isVerifying w \<or>
      (case steps (formStep w) of
         Some McName_field \<Rightarrow> mcName (formData w) = []
       | Some Email_field \<Rightarrow> fd_email (formData w) = []
       | Some Code_field \<Rightarrow> fd_code (formData w) = []
       | None \<Rightarrow> True))"

definition click_next :: "net \<Rightarrow> env \<Rightarrow> wizard \<times> world \<Rightarrow> wizard \<times> world" where
  \<comment> \<open>the primary button of the form view\<close>
  "click_next net ev = (\<lambda>(w, W).
     if is_form_view (render w) \<and> \<not> next_disabled w
     then handleNext net ev (w, W) else (w, W))"

section \<open>The operator dashboard\<close>

text \<open>
  The state of \<open>AdminDashboard\<close> that its handlers read or write (the search term, the
  status filter and the scroll anchor only select what is drawn).
\<close>

record dashboard =
  sessions :: "VerificationSession list"
  selectedSession :: "VerificationSession option"
  messages :: "LocalMessage list"
  newMessage :: jstring
  newSessionAlert :: bool
  channelRef :: "jstring option"
  codeInput :: jstring
  alert_timeouts :: nat  \<comment> \<open>pending 3000 ms timers that lower the alert\<close>

definition is_ws :: "nat \<Rightarrow> bool" where
  \<comment> \<open>what \<open>String.prototype.trim\<close> strips: WhiteSpace (TAB, VT, FF, U+FEFF and the
      space separators U+0020, U+00A0, U+1680, U+2000 to U+200A, U+202F, U+205F, U+3000)
      and LineTerminator (LF, CR, U+2028, U+2029)\<close>
  "is_ws u = (u \<in> set [0x09, 0x0A, 0x0B, 0x0C, 0x0D, 0x20, 0xA0, 0x1680,
                        0x2000, 0x2001, 0x2002, 0x2003, 0x2004, 0x2005, 0x2006, 0x2007,
                        0x2008, 0x2009, 0x200A, 0x2028, 0x2029, 0x202F, 0x205F, 0x3000,
                        0xFEFF])"

definition trim :: "jstring \<Rightarrow> jstring" where
  "trim s = rev (dropWhile is_ws (rev (dropWhile is_ws s)))"

definition to_local :: "ChatMessage \<Rightarrow> LocalMessage" where
  \<comment> \<open>\<open>data.map(m => ({ id: m.id, sender: m.sender, message: m.message,
      created_at: m.created_at }))\<close>, the same in both components\<close>
  "to_local m =
     \<lparr> lm_id = cm_id m, lm_sender = cm_sender m, lm_message = cm_message m,
       lm_created_at = cm_created_at m, lm_message_type = None, lm_is_correct = None \<rparr>"

definition db_select_sessions :: "world \<Rightarrow> VerificationSession list" where
  \<comment> \<open>\<open>.select('*').order('created_at', { ascending: false })\<close>\<close>
  "db_select_sessions W = rev (sort_key created_at (verification_sessions W))"

text \<open>
  \<open>fetchSessions\<close> reads \<open>sessions\<close> from the render that created the closure: \<open>held\<close>
  is that list. It writes through \<open>setSessions\<close>, which always reaches the current state.
\<close>

definition fetchSessions ::
  "net \<Rightarrow> VerificationSession list \<Rightarrow> dashboard \<times> world \<Rightarrow> dashboard \<times> world" where
  "fetchSessions net held = (\<lambda>(d, W).
     let (data, W1) = remote_read net Select_sessions (Some (db_select_sessions W)) W
     in case data of
          None \<Rightarrow> (d, W1)
        | Some rows \<Rightarrow>
            let d1 = (if length held > 0 \<and> length rows > length held
                      then d\<lparr>newSessionAlert := True, alert_timeouts := alert_timeouts d + 1\<rparr>
                      else d)
            in (d1\<lparr>sessions := rows\<rparr>, W1))"

definition click_refresh :: "net \<Rightarrow> dashboard \<times> world \<Rightarrow> dashboard \<times> world" where
  \<comment> \<open>\<open>onClick={fetchSessions}\<close>: the closure of the current render\<close>
  "click_refresh net = (\<lambda>(d, W). fetchSessions net (sessions d) (d, W))"

definition interval_tick :: "net \<Rightarrow> dashboard \<times> world \<Rightarrow> dashboard \<times> world" where
  \<comment> \<open>\<open>useEffect(() => { ...; fetchSessions(); setInterval(fetchSessions, 5000); ... }, [])\<close>:
      the effect runs once, after the first render, so its call and the timer use the
      closure of that render, where \<open>sessions\<close> is the initial state \<open>[]\<close>\<close>
  "interval_tick net = fetchSessions net []"

definition loadMessages :: "net \<Rightarrow> jstring \<Rightarrow> dashboard \<times> world \<Rightarrow> dashboard \<times> world" where
  "loadMessages net sid = (\<lambda>(d, W).
     let (data, W1) = remote_read net (Select_messages sid False)
                        (Some (db_select_messages sid False W)) W
     in case data of
          None \<Rightarrow> (d, W1)
        | Some rows \<Rightarrow> (d\<lparr>messages := map to_local rows\<rparr>, W1))"

definition selection_effect ::
  "net \<Rightarrow> jstring option \<Rightarrow> dashboard \<times> world \<Rightarrow> dashboard \<times> world" where
  \<comment> \<open>the effect keyed on \<open>selectedSession?.id\<close>; \<open>prev\<close> is the id of the render before\<close>
  "selection_effect net prev = (\<lambda>(d, W).
     if map_option vs_id (selectedSession d) = prev then (d, W)
     else case selectedSession d of
            None \<Rightarrow> (d\<lparr>messages := [], channelRef := None\<rparr>, W)
          | Some s \<Rightarrow>
              let (d1, W1) = loadMessages net (vs_id s) (d, W)
              in (d1\<lparr>channelRef := Some (channel_name (Some (vs_id s)))\<rparr>, W1))"

definition click_session ::
  "net \<Rightarrow> VerificationSession \<Rightarrow> dashboard \<times> world \<Rightarrow> dashboard \<times> world" where
  \<comment> \<open>\<open>onClick={() => setSelectedSession(session)}\<close>, then the effect\<close>
  "click_session net s = (\<lambda>(d, W).
     selection_effect net (map_option vs_id (selectedSession d))
       (d\<lparr>selectedSession := Some s\<rparr>, W))"

definition sendMessage :: "net \<Rightarrow> env \<Rightarrow> dashboard \<times> world \<Rightarrow> dashboard \<times> world" where
  "sendMessage net ev = (\<lambda>(d, W).
     case selectedSession d of
       None \<Rightarrow> (d, W)
     | Some s \<Rightarrow>
         if trim (newMessage d) = [] then (d, W)
         else
           let msg = \<lparr> lm_id = randomUUID ev, lm_sender = Admin,
                       lm_message = trim (newMessage d), lm_created_at = now ev,
                       lm_message_type = None, lm_is_correct = None \<rparr>;
               d1 = d\<lparr>messages := messages d @ [msg], newMessage := []\<rparr>;
               p = \<lparr> p_id = Some (lm_id msg), p_session_id = Some (vs_id s),
                     p_sender = Admin, p_message = lm_message msg,
                     p_message_type = None, p_is_correct = None \<rparr>;
               W1 = remote_write net (Insert_message p) (db_insert_message ev p) W;
               W2 = (case channelRef d of
                       Some ch \<Rightarrow> emit (Broadcast ch (New_message msg)) W1
                     | None \<Rightarrow> W1)
           in (d1, W2))"

definition endConversation :: "net \<Rightarrow> dashboard \<times> world \<Rightarrow> dashboard \<times> world" where
  "endConversation net = (\<lambda>(d, W).
     case selectedSession d of
       None \<Rightarrow> (d, W)
     | Some s \<Rightarrow>
         let sid = vs_id s;
             W1 = (case channelRef d of
                     Some ch \<Rightarrow> emit (Broadcast ch Chat_ended) W
                   | None \<Rightarrow> W);
             W2 = emit (Wait 500) W1;
             W3 = remote_write net (Delete_messages sid) (db_delete_messages sid) W2;
             W4 = remote_write net (Delete_session sid) (db_delete_session sid) W3
         in (d\<lparr>sessions := filter (\<lambda>x. vs_id x \<noteq> sid) (sessions d),
               selectedSession := None, messages := []\<rparr>, W4))"

definition updateSessionStatus ::
  "net \<Rightarrow> env \<Rightarrow> jstring \<Rightarrow> status \<Rightarrow> dashboard \<times> world \<Rightarrow> dashboard \<times> world" where
  "updateSessionStatus net ev sid st = (\<lambda>(d, W).
     let W1 = remote_write net (Update_status (Some sid) st (now ev))
                (db_update_status (Some sid) st (db_now ev)) W;
         d1 = d\<lparr>sessions := map (\<lambda>s. if vs_id s = sid then s\<lparr>status := st\<rparr> else s)
                                (sessions d)\<rparr>;
         d2 = (if map_option vs_id (selectedSession d) = Some sid
               then d1\<lparr>selectedSession := map_option (\<lambda>p. p\<lparr>status := st\<rparr>) (selectedSession d1)\<rparr>
               else d1)
     in (d2, W1))"

text \<open>
  The Verify and Reject buttons are drawn only while the selected session's local
  copy says \<open>pending\<close>.
\<close>

definition click_decision :: "net \<Rightarrow> env \<Rightarrow> status \<Rightarrow> dashboard \<times> world \<Rightarrow> dashboard \<times> world" where
  "click_decision net ev st = (\<lambda>(d, W).
     case selectedSession d of
       None \<Rightarrow> (d, W)
     | Some s \<Rightarrow>
         if status s = Pending \<and> st \<noteq> Pending
         then updateSessionStatus net ev (vs_id s) st (d, W)
         else (d, W))"

section \<open>The user's chat window\<close>

record chatWindow =
  cw_sessionId :: "jstring option"  \<comment> \<open>the prop \<open>sessionId\<close>\<close>
  cw_messages :: "LocalMessage list"
  input :: jstring
  isConnected :: bool
  chatEnded :: bool
  cw_channelRef :: "jstring option"

definition cw_loadMessages :: "net \<Rightarrow> chatWindow \<times> world \<Rightarrow> chatWindow \<times> world" where
  \<comment> \<open>\<open>if (!sessionId) return;\<close> then the load with
      \<open>.neq('message_type', 'code_attempt')\<close>\<close>
  "cw_loadMessages net = (\<lambda>(c, W).
     case cw_sessionId c of
       None \<Rightarrow> (c, W)
     | Some sid \<Rightarrow>
         let (data, W1) = remote_read net (Select_messages sid True)
                            (Some (db_select_messages sid True W)) W
         in (case data of
               None \<Rightarrow> (c, W1)
             | Some rows \<Rightarrow> (c\<lparr>cw_messages := map to_local rows\<rparr>, W1)))"

fun cw_on_broadcast :: "event \<Rightarrow> chatWindow \<Rightarrow> chatWindow" where
  \<comment> \<open>the window listens to \<open>new-message\<close> and \<open>chat-ended\<close> only\<close>
  "cw_on_broadcast (New_message m) c = c\<lparr>cw_messages := cw_messages c @ [m]\<rparr>"
| "cw_on_broadcast Chat_ended c = c\<lparr>chatEnded := True\<rparr>"
| "cw_on_broadcast (Code_attempt_event _ _) c = c"

definition handleSend :: "net \<Rightarrow> env \<Rightarrow> jstring \<Rightarrow> chatWindow \<times> world \<Rightarrow> chatWindow \<times> world" where
  "handleSend net ev text = (\<lambda>(c, W).
     case cw_sessionId c of
       None \<Rightarrow> (c, W)
     | Some sid \<Rightarrow>
         if trim text = [] \<or> chatEnded c then (c, W)
         else
           let newMsg = \<lparr> lm_id = randomUUID ev, lm_sender = User,
                          lm_message = trim text, lm_created_at = now ev,
                          lm_message_type = None, lm_is_correct = None \<rparr>;
               c1 = c\<lparr>cw_messages := cw_messages c @ [newMsg], input := []\<rparr>;
               p = \<lparr> p_id = Some (lm_id newMsg), p_session_id = Some sid,
                     p_sender = User, p_message = lm_message newMsg,
                     p_message_type = None, p_is_correct = None \<rparr>;
               W1 = remote_write net (Insert_message p) (db_insert_message ev p) W;
               W2 = (case cw_channelRef c of
                       Some ch \<Rightarrow> emit (Broadcast ch (New_message newMsg)) W1
                     | None \<Rightarrow> W1)
           in (c1, W2))"

text \<open>How the dashboard draws one entry of \<open>messages\<close>.\<close>

datatype bubble =
    Attempt_card bool jstring  \<comment> \<open>Correct or Wrong, and the code\<close>
  | Chat_bubble sender jstring

definition render_message :: "LocalMessage \<Rightarrow> bubble" where
  \<comment> \<open>\<open>msg.message_type === 'code_attempt' ? ... : ...\<close>\<close>
  "render_message m =
     (if lm_message_type m = Some Code_attempt
      then Attempt_card (case lm_is_correct m of Some v \<Rightarrow> truthy v | None \<Rightarrow> False)
             (lm_message m)
      else Chat_bubble (lm_sender m) (lm_message m))"

section \<open>Observations used in the statements\<close>

fun is_insert_message :: "effect \<Rightarrow> bool" where
  "is_insert_message (Insert_message _) = True"
| "is_insert_message _ = False"

fun is_update_status :: "effect \<Rightarrow> bool" where
  "is_update_status (Update_status _ _ _) = True"
| "is_update_status _ = False"

definition attempts :: "ChatMessage list \<Rightarrow> ChatMessage list" where
  "attempts ms = filter (\<lambda>m. cm_message_type m = Code_attempt) ms"

definition db_status :: "jstring option \<Rightarrow> world \<Rightarrow> status option" where
  \<comment> \<open>the status column of the one row with this id\<close>
  "db_status sid W =
     map_option status (single (filter (\<lambda>s. Some (vs_id s) = sid) (verification_sessions W)))"

text \<open>The message objects that \<open>handleSend\<close> and \<open>sendMessage\<close> build.\<close>

definition user_msg :: "env \<Rightarrow> jstring \<Rightarrow> LocalMessage" where
  "user_msg ev text =
     \<lparr> lm_id = randomUUID ev, lm_sender = User, lm_message = trim text,
       lm_created_at = now ev, lm_message_type = None, lm_is_correct = None \<rparr>"

definition admin_msg :: "env \<Rightarrow> jstring \<Rightarrow> LocalMessage" where
  "admin_msg ev text =
     \<lparr> lm_id = randomUUID ev, lm_sender = Admin, lm_message = trim text,
       lm_created_at = now ev, lm_message_type = None, lm_is_correct = None \<rparr>"

subsection \<open>A concrete session, used to run the handlers\<close>

definition all_ok :: net where
  "all_ok = (\<lambda>_. True)"

definition all_refused :: net where
  "all_refused = (\<lambda>_. False)"

definition ex_env :: env where
  "ex_env = \<lparr> randomUUID = str ''m9'', now = 2000, db_uuid = str ''r9'', db_now = 2001 \<rparr>"

definition ex_session :: VerificationSession where
  "ex_session = \<lparr> vs_id = str ''s1'', mc_name = [], email = str ''a@b.com'', code = str ''482913'',
                  status = Pending, created_at = 1000, updated_at = 1000, is_online = False \<rparr>"

definition ex_text :: ChatMessage where
  "ex_text = \<lparr> cm_id = str ''m1'', session_id = str ''s1'', cm_sender = User, cm_message = str ''hello'',
               cm_message_type = Text, cm_is_correct = None, cm_created_at = 1100 \<rparr>"

definition ex_attempt :: ChatMessage where
  "ex_attempt = \<lparr> cm_id = str ''m2'', session_id = str ''s1'', cm_sender = System,
                  cm_message = str ''000000'', cm_message_type = Code_attempt,
                  cm_is_correct = Some False, cm_created_at = 1200 \<rparr>"

definition ex_world :: world where
  "ex_world = \<lparr> verification_sessions = [ex_session],
                chat_messages = [ex_text, ex_attempt], trace = [] \<rparr>"

definition ex_wizard :: "jstring \<Rightarrow> wizard" where
  \<comment> \<open>the wizard on the code step of session \<open>s1\<close>, with the given input\<close>
  "ex_wizard c =
     \<lparr> step = Form, formStep = 2,
       formData = \<lparr> mcName = str ''Notch'', fd_email = str ''a@b.com'', fd_code = c \<rparr>,
       sessionId = Some (str ''s1''), isVerifying = False, isProcessing = False,
       isSuccess = False, isChatOpen = False, unreadCount = 0, codeError = False,
       timeouts = 0 \<rparr>"

definition ex_dashboard :: dashboard where
  \<comment> \<open>the dashboard as it is mounted\<close>
  "ex_dashboard =
     \<lparr> sessions = [], selectedSession = None, messages = [], newMessage = [],
       newSessionAlert = False, channelRef = None, codeInput = [], alert_timeouts = 0 \<rparr>"

definition ex_chat :: chatWindow where
  "ex_chat = \<lparr> cw_sessionId = Some (str ''s1''), cw_messages = [], input = str ''hi'',
               isConnected = True, chatEnded = False, cw_channelRef = Some (str ''chat-s1'') \<rparr>"

definition ex_blank_world :: world where
  \<comment> \<open>the store right after the session was created: no code set, no message yet\<close>
  "ex_blank_world = \<lparr> verification_sessions = [ex_session\<lparr>code := []\<rparr>],
                      chat_messages = [], trace = [] \<rparr>"

definition ex_selected :: dashboard where
  \<comment> \<open>the dashboard after a refresh and a click on the session\<close>
  "ex_selected = fst (click_session all_ok ex_session
                        (fst (click_refresh all_ok (ex_dashboard, ex_world)), ex_world))"

definition ex_email_wizard :: wizard where
  \<comment> \<open>the wizard on the email step, before any session exists\<close>
  "ex_email_wizard = (ex_wizard [])\<lparr>formStep := 1, sessionId := None\<rparr>"

definition ex_session2 :: VerificationSession where
  "ex_session2 = \<lparr> vs_id = str ''s2'', mc_name = [], email = str ''c@d.com'', code = [],
                   status = Pending, created_at = 3000, updated_at = 3000, is_online = False \<rparr>"

definition ex_world2 :: world where
  \<comment> \<open>a second session has arrived\<close>
  "ex_world2 = ex_world\<lparr>verification_sessions := [ex_session, ex_session2]\<rparr>"

definition ex_polled :: dashboard where
  \<comment> \<open>the dashboard after its first poll, holding the one session\<close>
  "ex_polled = fst (interval_tick all_ok (ex_dashboard, ex_world))"

section \<open>What one run of \<open>handleSubmit\<close> does\<close>

lemma str_simps [simp]: "str [] = []" "str (c # cs) = of_char c # str cs"
  by (simp_all add: str_def)

lemma issued_emit [simp]: "issued W (emit e W) = [e]"
  by (simp add: issued_def emit_def)

lemma issued_handleSubmit:
  "issued W (snd (handleSubmit net ev (w, W))) =
     (let sd = (if net (Select_code (sessionId w)) then db_select_code (sessionId w) W else None);
          ok = isCorrect sd (fd_code (formData w))
      in [Select_code (sessionId w), Insert_message (attempt_payload w ok),
          Broadcast (channel_name (sessionId w)) (Code_attempt_event (fd_code (formData w)) ok)]
         @ (if truthy ok then [Update_status (sessionId w) Verified (now ev)] else [])
         @ [Wait 1000])"
  by (simp add: handleSubmit_def Let_def remote_read_def remote_write_def emit_def issued_def
        db_insert_message_def db_update_status_def split: option.splits)

lemma truthy_isCorrect:
  "truthy (isCorrect sd c) = (case sd of Some s \<Rightarrow> s \<noteq> [] \<and> c = s | None \<Rightarrow> False)"
  by (auto simp: isCorrect_def js_and_def or_str_def Let_def split: option.splits)

lemma chat_messages_db_insert_message:
  "db_select_code sid W = Some c \<Longrightarrow> p_session_id p = sid \<Longrightarrow> boolean_column (p_is_correct p) \<Longrightarrow>
   chat_messages (db_insert_message ev p W) = chat_messages W @ [row_of ev p]"
proof -
  assume a: "db_select_code sid W = Some c" and p: "p_session_id p = sid"
    and b: "boolean_column (p_is_correct p)"
  from a obtain s where s: "filter (\<lambda>s. Some (vs_id s) = sid) (verification_sessions W) = [s]"
    by (auto simp: db_select_code_def single_def split: list.splits)
  then have "s \<in> set (filter (\<lambda>s. Some (vs_id s) = sid) (verification_sessions W))" by simp
  then have "s \<in> set (verification_sessions W)" and "sid = Some (vs_id s)" by auto
  with p b show ?thesis by (auto simp: db_insert_message_def)
qed

lemma isCorrect_set: "stored \<noteq> [] \<Longrightarrow> isCorrect (Some stored) c = JBool (c = stored)"
  by (simp add: isCorrect_def js_and_def or_str_def)

lemma isCorrect_unset: "isCorrect (Some []) c = JStr []" "isCorrect None c = JStr []"
  by (simp_all add: isCorrect_def js_and_def or_str_def)

lemma db_insert_message_string_flag:
  "p_is_correct p = Some (JStr s) \<Longrightarrow> db_insert_message ev p W = W"
  by (simp add: db_insert_message_def split: option.splits)

lemma chat_messages_handleSubmit:
  "chat_messages (snd (handleSubmit net ev (w, W))) =
     (let sd = (if net (Select_code (sessionId w)) then db_select_code (sessionId w) W else None);
          p = attempt_payload w (isCorrect sd (fd_code (formData w)))
      in if net (Insert_message p) then chat_messages (db_insert_message ev p W)
         else chat_messages W)"
  by (simp add: handleSubmit_def Let_def remote_read_def remote_write_def emit_def
        db_insert_message_def db_update_status_def split: option.splits)

lemma sessions_handleSubmit:
  "verification_sessions (snd (handleSubmit net ev (w, W))) =
     (let sd = (if net (Select_code (sessionId w)) then db_select_code (sessionId w) W else None);
          u = Update_status (sessionId w) Verified (now ev)
      in if truthy (isCorrect sd (fd_code (formData w))) \<and> net u
         then verification_sessions (db_update_status (sessionId w) Verified (db_now ev) W)
         else verification_sessions W)"
  by (simp add: handleSubmit_def Let_def remote_read_def remote_write_def emit_def
        db_insert_message_def db_update_status_def split: option.splits)

lemma wizard_handleSubmit:
  "fst (handleSubmit net ev (w, W)) =
     (let sd = (if net (Select_code (sessionId w)) then db_select_code (sessionId w) W else None)
      in if truthy (isCorrect sd (fd_code (formData w)))
         then w\<lparr>isVerifying := False, codeError := False, isSuccess := True\<rparr>
         else w\<lparr>isVerifying := False, codeError := True,
                formData := (formData w)\<lparr>fd_code := []\<rparr>\<rparr>)"
  by (simp add: handleSubmit_def Let_def remote_read_def split: prod.splits)

lemma filter_id_map:
  "(\<And>x. vs_id (f x) = vs_id x) \<Longrightarrow>
   filter (\<lambda>s. Some (vs_id s) = sid) (map f xs) = map f (filter (\<lambda>s. Some (vs_id s) = sid) xs)"
  by (induction xs) auto

lemma db_status_update:
  "db_select_code sid W = Some c \<Longrightarrow> db_status sid (db_update_status sid st t W) = Some st"
proof -
  assume a: "db_select_code sid W = Some c"
  let ?f = "\<lambda>s. if Some (vs_id s) = sid then s\<lparr>status := st, updated_at := t\<rparr> else s"
  have id: "\<And>x. vs_id (?f x) = vs_id x" by simp
  from a obtain s where s: "filter (\<lambda>s. Some (vs_id s) = sid) (verification_sessions W) = [s]"
    by (auto simp: db_select_code_def single_def split: list.splits)
  then have "s \<in> set (filter (\<lambda>s. Some (vs_id s) = sid) (verification_sessions W))" by simp
  then have sid: "Some (vs_id s) = sid" by simp
  have "filter (\<lambda>s. Some (vs_id s) = sid) (map ?f (verification_sessions W)) = [?f s]"
    using filter_id_map [of ?f sid "verification_sessions W", OF id] s by simp
  then show ?thesis using sid
    by (simp add: db_status_def db_update_status_def single_def)
qed

lemma render_success: "(render w = Success_view) = isSuccess w"
  by (auto simp: render_def split: option.splits field.splits)

text \<open>
  The primary button on the code step submits only a non-empty input, and not while a
  submission is running.
\<close>

lemma click_next_on_code_step:
  "formStep w = 2 \<Longrightarrow>
   click_next net ev (w, W) =
     (if is_form_view (render w) \<and> \<not> isVerifying w \<and> fd_code (formData w) \<noteq> []
      then handleSubmit net ev (w, W) else (w, W))"
  by (simp add: click_next_def next_disabled_def steps_def handleNext_def)

section \<open>Code submissions\<close>

text \<open>
  Once the operator has set a code, a submission records one \<open>code_attempt\<close> row: it
  carries the session, the submitted code and, as its flag, whether that code equals the
  stored one.
\<close>

lemma recorded_attempt_when_code_is_set:
  assumes "stored \<noteq> []"
    and "net (Select_code (sessionId w))"
    and "db_select_code (sessionId w) W = Some stored"
    and "sessionId w = Some sid"
  shows "let W' = snd (handleSubmit net ev (w, W));
             p = attempt_payload w (JBool (fd_code (formData w) = stored))
         in filter is_insert_message (issued W W') = [Insert_message p]
          \<and> chat_messages W' =
              chat_messages W @
              (if net (Insert_message p)
               then [\<lparr> cm_id = db_uuid ev, session_id = sid, cm_sender = System,
                       cm_message = fd_code (formData w), cm_message_type = Code_attempt,
                       cm_is_correct = Some (fd_code (formData w) = stored),
                       cm_created_at = db_now ev \<rparr>]
               else [])"
proof -
  let ?p = "attempt_payload w (JBool (fd_code (formData w) = stored))"
  have ok: "isCorrect (Some stored) (fd_code (formData w)) = JBool (fd_code (formData w) = stored)"
    using assms(1) by (rule isCorrect_set)
  have i: "filter is_insert_message (issued W (snd (handleSubmit net ev (w, W))))
             = [Insert_message ?p]"
    using assms(2,3) ok by (simp add: issued_handleSubmit Let_def)
  have "chat_messages (db_insert_message ev ?p W) = chat_messages W @ [row_of ev ?p]"
    using assms(3) by (rule chat_messages_db_insert_message) (simp_all add: attempt_payload_def)
  then have c: "chat_messages (snd (handleSubmit net ev (w, W))) =
                  chat_messages W @ (if net (Insert_message ?p) then [row_of ev ?p] else [])"
    using assms(2,3) ok by (simp add: chat_messages_handleSubmit Let_def)
  have r: "row_of ev ?p =
             \<lparr> cm_id = db_uuid ev, session_id = sid, cm_sender = System,
               cm_message = fd_code (formData w), cm_message_type = Code_attempt,
               cm_is_correct = Some (fd_code (formData w) = stored), cm_created_at = db_now ev \<rparr>"
    using assms(4) by (simp add: row_of_def attempt_payload_def)
  show ?thesis using i c r by (simp add: Let_def)
qed

text \<open>
  While the stored code is empty, \<open>isCorrect\<close> is the empty string: the insert carries it
  as \<open>is_correct\<close>, the store refuses it, and the submission leaves both tables as they
  were, sets no success and issues no status update, whatever the input.
\<close>

lemma unset_code_submission:
  assumes "db_select_code (sessionId w) W = Some []"
  shows "let w' = fst (handleSubmit net ev (w, W));
             W' = snd (handleSubmit net ev (w, W))
         in filter is_insert_message (issued W W') = [Insert_message (attempt_payload w (JStr []))]
          \<and> chat_messages W' = chat_messages W
          \<and> filter is_update_status (issued W W') = []
          \<and> verification_sessions W' = verification_sessions W
          \<and> isSuccess w' = isSuccess w"
proof -
  let ?sd = "if net (Select_code (sessionId w)) then db_select_code (sessionId w) W else None"
  have ok: "isCorrect ?sd (fd_code (formData w)) = JStr []"
    using assms by (simp add: isCorrect_unset)
  have 1: "filter is_insert_message (issued W (snd (handleSubmit net ev (w, W))))
             = [Insert_message (attempt_payload w (JStr []))]"
    using ok by (simp add: issued_handleSubmit Let_def)
  have "db_insert_message ev (attempt_payload w (JStr [])) W = W"
    by (rule db_insert_message_string_flag [of _ "[]"]) (simp add: attempt_payload_def)
  then have 2: "chat_messages (snd (handleSubmit net ev (w, W))) = chat_messages W"
    using ok by (simp add: chat_messages_handleSubmit Let_def)
  have 3: "filter is_update_status (issued W (snd (handleSubmit net ev (w, W)))) = []"
    using ok by (simp add: issued_handleSubmit Let_def)
  have 4: "verification_sessions (snd (handleSubmit net ev (w, W))) = verification_sessions W"
    using ok by (simp add: sessions_handleSubmit Let_def)
  have 5: "isSuccess (fst (handleSubmit net ev (w, W))) = isSuccess w"
    using ok by (simp add: wizard_handleSubmit Let_def)
  show ?thesis using 1 2 3 4 5 by (simp add: Let_def)
qed

text \<open>
  C1. Every code submission should record exactly one \<open>code_attempt\<close> message, with a
  flag that says whether the submitted code equals the stored one. A session is created
  with the code \<open>''\<close>, and the form reaches the code step 30 s later whether or not the
  operator has set one. A submission of \<open>123456\<close> at that point sends \<open>is_correct: ''\<close>,
  which the BOOLEAN column refuses: the table holds no attempt afterwards. With the code
  \<open>482913\<close> set, the submission of \<open>000000\<close> is recorded, with the flag \<open>false\<close>.
\<close>

theorem attempt_on_unset_code_is_not_recorded:
  "db_select_code (Some (str ''s1'')) ex_blank_world = Some []
   \<and> filter is_insert_message
        (issued ex_blank_world
           (snd (handleSubmit all_ok ex_env (ex_wizard (str ''123456''), ex_blank_world))))
       = [Insert_message
            \<lparr> p_id = None, p_session_id = Some (str ''s1''), p_sender = System,
              p_message = str ''123456'', p_message_type = Some Code_attempt,
              p_is_correct = Some (JStr []) \<rparr>]
   \<and> chat_messages (snd (handleSubmit all_ok ex_env (ex_wizard (str ''123456''), ex_blank_world)))
       = []
   \<and> chat_messages (snd (handleSubmit all_ok ex_env (ex_wizard (str ''000000''), ex_world)))
       = [ex_text, ex_attempt,
          \<lparr> cm_id = str ''r9'', session_id = str ''s1'', cm_sender = System,
            cm_message = str ''000000'', cm_message_type = Code_attempt,
            cm_is_correct = Some False, cm_created_at = 2001 \<rparr>]"
proof -
  have b: "db_select_code (sessionId (ex_wizard c)) ex_blank_world = Some []" for c
    by (simp add: db_select_code_def ex_wizard_def ex_blank_world_def ex_session_def single_def)
  have s: "sessionId (ex_wizard c) = Some (str ''s1'')" "fd_code (formData (ex_wizard c)) = c" for c
    by (simp_all add: ex_wizard_def)
  have e: "chat_messages ex_blank_world = []" by (simp add: ex_blank_world_def)
  from unset_code_submission
         [where w = "ex_wizard (str ''123456'')" and W = ex_blank_world and net = all_ok
            and ev = ex_env, OF b]
  have 1: "filter is_insert_message
             (issued ex_blank_world
                (snd (handleSubmit all_ok ex_env (ex_wizard (str ''123456''), ex_blank_world))))
            = [Insert_message (attempt_payload (ex_wizard (str ''123456'')) (JStr []))]"
    and 2: "chat_messages
              (snd (handleSubmit all_ok ex_env (ex_wizard (str ''123456''), ex_blank_world))) = []"
    by (simp_all add: Let_def e)
  have c: "db_select_code (sessionId (ex_wizard (str ''000000''))) ex_world = Some (str ''482913'')"
    by (simp add: db_select_code_def ex_wizard_def ex_world_def ex_session_def single_def)
  have n: "str ''482913'' \<noteq> []" by (simp add: str_def)
  have a: "all_ok (Select_code (sessionId (ex_wizard (str ''000000''))))" by (simp add: all_ok_def)
  from recorded_attempt_when_code_is_set
         [where stored = "str ''482913''" and net = all_ok and w = "ex_wizard (str ''000000'')"
            and W = ex_world and sid = "str ''s1''" and ev = ex_env, OF n a c s(1)]
  have 3: "chat_messages (snd (handleSubmit all_ok ex_env (ex_wizard (str ''000000''), ex_world)))
            = [ex_text, ex_attempt,
               \<lparr> cm_id = str ''r9'', session_id = str ''s1'', cm_sender = System,
                 cm_message = str ''000000'', cm_message_type = Code_attempt,
                 cm_is_correct = Some False, cm_created_at = 2001 \<rparr>]"
    by (simp add: Let_def all_ok_def s ex_world_def ex_env_def str_def)
  show ?thesis using b [of "[]"] 1 2 3 by (simp add: s attempt_payload_def)
qed

text \<open>
  C2. On a submission of a code that matches the stored one, the status of the session is
  set to \<open>verified\<close> and the success view is drawn; on one that does not match, no status
  update is issued and the status stays as it was, the code input is emptied, and the
  form shows the error with the prompt to contact support.

  The submission comes from the code step of the form, with a non-empty input; the write
  of the status reaches the row when the store accepts it.
\<close>

theorem submit_outcome:
  assumes "fd_code (formData w) \<noteq> []"
    and "net (Select_code (sessionId w))"
    and "db_select_code (sessionId w) W = Some stored"
    and "step w = Form" and "formStep w = 2" and "\<not> isProcessing w" and "\<not> isSuccess w"
  shows "let w' = fst (handleSubmit net ev (w, W));
             W' = snd (handleSubmit net ev (w, W));
             u = Update_status (sessionId w) Verified (now ev)
         in if fd_code (formData w) = stored
            then filter is_update_status (issued W W') = [u]
               \<and> (net u \<longrightarrow> db_status (sessionId w) W' = Some Verified)
               \<and> render w' = Success_view
            else filter is_update_status (issued W W') = []
               \<and> verification_sessions W' = verification_sessions W
               \<and> db_status (sessionId w) W' = db_status (sessionId w) W
               \<and> fd_code (formData w') = []
               \<and> codeError w'
               \<and> render w' = Form_view 2 [] (Some Invalid_code_contact_support)"
proof -
  let ?ok = "isCorrect (Some stored) (fd_code (formData w))"
  have t: "truthy ?ok = (fd_code (formData w) = stored)"
    using assms(1) by (auto simp: truthy_isCorrect)
  show ?thesis
  proof (cases "fd_code (formData w) = stored")
    case True
    with t have ok: "truthy ?ok" by simp
    have 1: "filter is_update_status (issued W (snd (handleSubmit net ev (w, W))))
               = [Update_status (sessionId w) Verified (now ev)]"
      using assms(2,3) ok by (simp add: issued_handleSubmit Let_def)
    have 2: "net (Update_status (sessionId w) Verified (now ev)) \<longrightarrow>
             db_status (sessionId w) (snd (handleSubmit net ev (w, W))) = Some Verified"
      using assms(2,3) ok db_status_update [OF assms(3), of Verified "db_now ev"]
      by (simp add: db_status_def sessions_handleSubmit Let_def)
    have 3: "render (fst (handleSubmit net ev (w, W))) = Success_view"
      using assms(2,3) ok by (simp add: wizard_handleSubmit Let_def render_def)
    show ?thesis using True 1 2 3 by (simp add: Let_def)
  next
    case False
    with t have ok: "\<not> truthy ?ok" by simp
    have 1: "filter is_update_status (issued W (snd (handleSubmit net ev (w, W)))) = []"
      using assms(2,3) ok by (simp add: issued_handleSubmit Let_def)
    have 2: "verification_sessions (snd (handleSubmit net ev (w, W))) = verification_sessions W"
      using assms(2,3) ok by (simp add: sessions_handleSubmit Let_def)
    have 3: "fst (handleSubmit net ev (w, W)) =
               w\<lparr>isVerifying := False, codeError := True,
                  formData := (formData w)\<lparr>fd_code := []\<rparr>\<rparr>"
      using assms(2,3) ok by (simp add: wizard_handleSubmit Let_def)
    have 4: "render (fst (handleSubmit net ev (w, W)))
               = Form_view 2 [] (Some Invalid_code_contact_support)"
      using assms(4-7) by (simp add: 3 render_def steps_def)
    show ?thesis using False 1 2 3 4 by (simp add: Let_def db_status_def)
  qed
qed

theorem submit_outcome_witness:
  "fd_code (formData (ex_wizard (str ''000000''))) \<noteq> []
   \<and> fd_code (formData (ex_wizard (str ''482913''))) \<noteq> []
   \<and> all_ok (Select_code (Some (str ''s1'')))
   \<and> db_select_code (Some (str ''s1'')) ex_world = Some (str ''482913'')
   \<and> sessionId (ex_wizard (str ''000000'')) = Some (str ''s1'') \<and> sessionId (ex_wizard (str ''482913'')) = Some (str ''s1'')
   \<and> step (ex_wizard (str ''000000'')) = Form \<and> formStep (ex_wizard (str ''000000'')) = 2
   \<and> \<not> isProcessing (ex_wizard (str ''000000'')) \<and> \<not> isSuccess (ex_wizard (str ''000000''))
   \<and> step (ex_wizard (str ''482913'')) = Form \<and> formStep (ex_wizard (str ''482913'')) = 2
   \<and> \<not> isProcessing (ex_wizard (str ''482913'')) \<and> \<not> isSuccess (ex_wizard (str ''482913''))
   \<and> db_status (Some (str ''s1'')) (snd (handleSubmit all_ok ex_env (ex_wizard (str ''000000''), ex_world)))
       = Some Pending
   \<and> render (fst (handleSubmit all_ok ex_env (ex_wizard (str ''000000''), ex_world)))
       = Form_view 2 [] (Some Invalid_code_contact_support)
   \<and> db_status (Some (str ''s1'')) (snd (handleSubmit all_ok ex_env (ex_wizard (str ''482913''), ex_world)))
       = Some Verified
   \<and> render (fst (handleSubmit all_ok ex_env (ex_wizard (str ''482913''), ex_world))) = Success_view"
proof -
  have s: "sessionId (ex_wizard c) = Some (str ''s1'')" "step (ex_wizard c) = Form"
    "formStep (ex_wizard c) = 2" "\<not> isProcessing (ex_wizard c)" "\<not> isSuccess (ex_wizard c)"
    "fd_code (formData (ex_wizard c)) = c" for c
    by (simp_all add: ex_wizard_def)
  have h2: "all_ok (Select_code (sessionId (ex_wizard c)))" for c by (simp add: all_ok_def)
  have h3: "db_select_code (sessionId (ex_wizard c)) ex_world = Some (str ''482913'')" for c
    by (simp add: db_select_code_def ex_wizard_def ex_world_def ex_session_def single_def)
  have st: "db_status (Some (str ''s1'')) ex_world = Some Pending"
    by (simp add: db_status_def ex_world_def ex_session_def single_def)
  have a: "fd_code (formData (ex_wizard (str ''000000''))) \<noteq> []"
    and b: "fd_code (formData (ex_wizard (str ''482913''))) \<noteq> []"
    by (simp_all add: s)
  from submit_outcome
         [where w = "ex_wizard (str ''000000'')" and net = all_ok and W = ex_world
            and stored = "(str ''482913'')" and ev = ex_env, OF a h2 h3 s(2-5)]
  have wrong: "db_status (Some (str ''s1''))
                 (snd (handleSubmit all_ok ex_env (ex_wizard (str ''000000''), ex_world))) = Some Pending"
    "render (fst (handleSubmit all_ok ex_env (ex_wizard (str ''000000''), ex_world)))
       = Form_view 2 [] (Some Invalid_code_contact_support)"
    using st by (simp_all add: Let_def s)
  from submit_outcome
         [where w = "ex_wizard (str ''482913'')" and net = all_ok and W = ex_world
            and stored = "(str ''482913'')" and ev = ex_env, OF b h2 h3 s(2-5)]
  have right: "db_status (Some (str ''s1''))
                 (snd (handleSubmit all_ok ex_env (ex_wizard (str ''482913''), ex_world))) = Some Verified"
    "render (fst (handleSubmit all_ok ex_env (ex_wizard (str ''482913''), ex_world))) = Success_view"
    by (simp_all add: Let_def s all_ok_def)
  show ?thesis using wrong right h3 [of "[]"] by (simp add: s all_ok_def)
qed

text \<open>
  C10. While the stored code is empty, the recorded attempt should carry \<open>is_correct\<close>
  false. For the submission of \<open>000000\<close> against the code \<open>''\<close> of a new session, the flag
  that \<open>handleSubmit\<close> computes and sends is the empty string, not \<open>false\<close>, and the store
  records no attempt. No status update is issued, the session stays pending and the form
  shows the error, not the success view.
\<close>

theorem unset_code_flag_is_empty_string:
  "isCorrect (db_select_code (Some (str ''s1'')) ex_blank_world) (str ''000000'') = JStr []
   \<and> isCorrect (db_select_code (Some (str ''s1'')) ex_blank_world) (str ''000000'') \<noteq> JBool False
   \<and> filter is_insert_message
        (issued ex_blank_world
           (snd (handleSubmit all_ok ex_env (ex_wizard (str ''000000''), ex_blank_world))))
       = [Insert_message
            \<lparr> p_id = None, p_session_id = Some (str ''s1''), p_sender = System,
              p_message = str ''000000'', p_message_type = Some Code_attempt,
              p_is_correct = Some (JStr []) \<rparr>]
   \<and> attempts (chat_messages
        (snd (handleSubmit all_ok ex_env (ex_wizard (str ''000000''), ex_blank_world)))) = []
   \<and> filter is_update_status
        (issued ex_blank_world
           (snd (handleSubmit all_ok ex_env (ex_wizard (str ''000000''), ex_blank_world)))) = []
   \<and> db_status (Some (str ''s1''))
        (snd (handleSubmit all_ok ex_env (ex_wizard (str ''000000''), ex_blank_world)))
       = Some Pending
   \<and> render (fst (handleSubmit all_ok ex_env (ex_wizard (str ''000000''), ex_blank_world)))
       = Form_view 2 [] (Some Invalid_code_contact_support)"
proof -
  let ?w = "ex_wizard (str ''000000'')"
  have b: "db_select_code (sessionId ?w) ex_blank_world = Some []"
    by (simp add: db_select_code_def ex_wizard_def ex_blank_world_def ex_session_def single_def)
  have s: "sessionId (ex_wizard c) = Some (str ''s1'')" "fd_code (formData (ex_wizard c)) = c" for c
    by (simp_all add: ex_wizard_def)
  have f: "isCorrect (db_select_code (Some (str ''s1'')) ex_blank_world) (str ''000000'') = JStr []"
    using b by (simp add: s isCorrect_unset)
  have e: "chat_messages ex_blank_world = []" by (simp add: ex_blank_world_def)
  have p: "db_status (Some (str ''s1'')) ex_blank_world = Some Pending"
    by (simp add: db_status_def ex_blank_world_def ex_session_def single_def)
  from unset_code_submission
         [where w = ?w and W = ex_blank_world and net = all_ok and ev = ex_env, OF b]
  have 1: "filter is_insert_message
             (issued ex_blank_world (snd (handleSubmit all_ok ex_env (?w, ex_blank_world))))
            = [Insert_message (attempt_payload ?w (JStr []))]"
    and 2: "chat_messages (snd (handleSubmit all_ok ex_env (?w, ex_blank_world))) = []"
    and 3: "filter is_update_status
              (issued ex_blank_world (snd (handleSubmit all_ok ex_env (?w, ex_blank_world)))) = []"
    and 4: "verification_sessions (snd (handleSubmit all_ok ex_env (?w, ex_blank_world)))
              = verification_sessions ex_blank_world"
    by (simp_all add: Let_def e)
  have 5: "render (fst (handleSubmit all_ok ex_env (?w, ex_blank_world)))
             = Form_view 2 [] (Some Invalid_code_contact_support)"
    using b by (simp add: wizard_handleSubmit Let_def all_ok_def isCorrect_unset render_def
                  steps_def ex_wizard_def)
  have 6: "db_status (Some (str ''s1'')) (snd (handleSubmit all_ok ex_env (?w, ex_blank_world)))
             = Some Pending"
    using p 4 by (simp add: db_status_def)
  show ?thesis using f 1 2 3 5 6 by (simp add: attempts_def attempt_payload_def s)
qed

lemma ex_selected_eq:
  "ex_selected =
     \<lparr> sessions = [ex_session], selectedSession = Some ex_session,
       messages = [to_local ex_text, to_local ex_attempt], newMessage = [],
       newSessionAlert = False, channelRef = Some (str ''chat-s1''), codeInput = [],
       alert_timeouts = 0 \<rparr>"
  by (simp add: ex_selected_def click_session_def click_refresh_def fetchSessions_def
        selection_effect_def loadMessages_def remote_read_def emit_def all_ok_def
        db_select_sessions_def db_select_messages_def ex_world_def ex_dashboard_def
        ex_session_def ex_text_def ex_attempt_def channel_name_def Let_def)

section \<open>Status transitions\<close>

text \<open>
  C3. The status of a session should only move from \<open>pending\<close> to \<open>verified\<close> or to
  \<open>rejected\<close>. The dashboard offers its two buttons only on a pending session, but
  \<open>handleSubmit\<close> writes \<open>verified\<close> on a matching code without reading the status: after
  the operator has rejected the session, the user's correct code makes it verified.
\<close>

theorem rejected_session_becomes_verified:
  "db_status (Some (str ''s1'')) ex_world = Some Pending
   \<and> db_status (Some (str ''s1''))
        (snd (click_decision all_ok ex_env Rejected (ex_selected, ex_world))) = Some Rejected
   \<and> db_status (Some (str ''s1''))
        (snd (handleSubmit all_ok ex_env
               (ex_wizard (str ''482913''),
                snd (click_decision all_ok ex_env Rejected (ex_selected, ex_world))))) = Some Verified"
proof -
  let ?W1 = "snd (click_decision all_ok ex_env Rejected (ex_selected, ex_world))"
  have 0: "db_status (Some (str ''s1'')) ex_world = Some Pending"
    by (simp add: db_status_def single_def ex_world_def ex_session_def)
  have v: "verification_sessions ?W1 = [ex_session\<lparr>status := Rejected, updated_at := 2001\<rparr>]"
    by (simp add: ex_selected_eq click_decision_def updateSessionStatus_def remote_write_def
          emit_def db_update_status_def all_ok_def ex_world_def ex_session_def ex_env_def Let_def)
  have 1: "db_status (Some (str ''s1'')) ?W1 = Some Rejected"
    by (simp add: db_status_def single_def v ex_session_def)
  have c: "db_select_code (sessionId (ex_wizard (str ''482913''))) ?W1 = Some (str ''482913'')"
    by (simp add: db_select_code_def single_def v ex_session_def ex_wizard_def)
  have ok: "truthy (isCorrect (Some (str ''482913'')) (fd_code (formData (ex_wizard (str ''482913'')))))"
    by (simp add: truthy_isCorrect ex_wizard_def)
  have "verification_sessions (snd (handleSubmit all_ok ex_env (ex_wizard (str ''482913''), ?W1)))
          = verification_sessions
              (db_update_status (sessionId (ex_wizard (str ''482913''))) Verified (db_now ex_env) ?W1)"
    using c ok by (simp add: sessions_handleSubmit Let_def all_ok_def)
  then have 2: "db_status (sessionId (ex_wizard (str ''482913'')))
                  (snd (handleSubmit all_ok ex_env (ex_wizard (str ''482913''), ?W1))) = Some Verified"
    using db_status_update [OF c, of Verified "db_now ex_env"] by (simp add: db_status_def)
  have s: "sessionId (ex_wizard c) = Some (str ''s1'')" for c by (simp add: ex_wizard_def)
  show ?thesis using 0 1 2 by (simp add: s)
qed

section \<open>Transcripts\<close>

lemma set_db_select_messages:
  "set (db_select_messages sid b W) =
     {m \<in> set (chat_messages W). session_id m = sid \<and> (b \<longrightarrow> cm_message_type m \<noteq> Code_attempt)}"
  by (auto simp: db_select_messages_def)

lemma cw_loadMessages_ok:
  "cw_sessionId c = Some sid \<Longrightarrow> net (Select_messages sid True) \<Longrightarrow>
   cw_messages (fst (cw_loadMessages net (c, W))) = map to_local (db_select_messages sid True W)"
  by (simp add: cw_loadMessages_def remote_read_def)

lemma loadMessages_ok:
  "net (Select_messages sid False) \<Longrightarrow>
   messages (fst (loadMessages net sid (d, W))) = map to_local (db_select_messages sid False W)"
  by (simp add: loadMessages_def remote_read_def)

lemma lm_id_to_local [simp]: "lm_id (to_local m) = cm_id m"
  by (simp add: to_local_def)

text \<open>
  C4. A \<open>code_attempt\<close> row never shows in the user's transcript: the user's load leaves
  every such row out (ids are the primary key of the table), and the chat window has no
  listener for the \<open>code-attempt\<close> broadcast. Every \<open>code_attempt\<close> row of the session is
  in what the operator's load puts into the transcript.
\<close>

theorem code_attempts_operator_only:
  assumes "distinct (map cm_id (chat_messages W))"
    and "cw_sessionId c = Some sid"
    and "net (Select_messages sid True)"
    and "net (Select_messages sid False)"
  shows "(\<forall>m \<in> set (chat_messages W). cm_message_type m = Code_attempt \<longrightarrow>
            cm_id m \<notin> lm_id ` set (cw_messages (fst (cw_loadMessages net (c, W)))))
       \<and> cw_on_broadcast (Code_attempt_event x ok) c = c
       \<and> (\<forall>m \<in> set (chat_messages W). session_id m = sid \<and> cm_message_type m = Code_attempt \<longrightarrow>
            to_local m \<in> set (messages (fst (loadMessages net sid (d, W)))))"
proof -
  have inj: "inj_on cm_id (set (chat_messages W))"
    using assms(1) by (simp add: distinct_map)
  have user: "cm_id m \<notin> lm_id ` set (cw_messages (fst (cw_loadMessages net (c, W))))"
    if m: "m \<in> set (chat_messages W)" and a: "cm_message_type m = Code_attempt" for m
  proof
    assume "cm_id m \<in> lm_id ` set (cw_messages (fst (cw_loadMessages net (c, W))))"
    then obtain r where r: "r \<in> set (db_select_messages sid True W)" and e: "cm_id m = cm_id r"
      using assms(2,3) by (auto simp: cw_loadMessages_ok)
    from r have rin: "r \<in> set (chat_messages W)" and rt: "cm_message_type r \<noteq> Code_attempt"
      by (simp_all add: set_db_select_messages)
    from inj e m rin have "m = r" by (rule inj_onD)
    with a rt show False by simp
  qed
  have oper: "to_local m \<in> set (messages (fst (loadMessages net sid (d, W))))"
    if "m \<in> set (chat_messages W)" and "session_id m = sid" for m
    using that assms(4) by (simp add: loadMessages_ok set_db_select_messages)
  show ?thesis using user oper by simp
qed

theorem code_attempts_operator_only_witness:
  "distinct (map cm_id (chat_messages ex_world))
   \<and> cw_sessionId ex_chat = Some (str ''s1'')
   \<and> all_ok (Select_messages (str ''s1'') True) \<and> all_ok (Select_messages (str ''s1'') False)
   \<and> ex_attempt \<in> set (chat_messages ex_world)
   \<and> cm_id ex_attempt \<notin> lm_id ` set (cw_messages (fst (cw_loadMessages all_ok (ex_chat, ex_world))))
   \<and> to_local ex_attempt \<in> set (messages (fst (loadMessages all_ok (str ''s1'') (ex_dashboard, ex_world))))"
proof -
  have h1: "distinct (map cm_id (chat_messages ex_world))"
    by (simp add: ex_world_def ex_text_def ex_attempt_def)
  have h2: "cw_sessionId ex_chat = Some (str ''s1'')" by (simp add: ex_chat_def)
  have h3: "all_ok (Select_messages (str ''s1'') True)" "all_ok (Select_messages (str ''s1'') False)"
    by (simp_all add: all_ok_def)
  have m: "ex_attempt \<in> set (chat_messages ex_world)"
    "session_id ex_attempt = str ''s1''" "cm_message_type ex_attempt = Code_attempt"
    by (simp_all add: ex_world_def ex_attempt_def)
  from code_attempts_operator_only
         [where W = ex_world and c = ex_chat and sid = "(str ''s1'')" and net = all_ok
            and d = ex_dashboard, OF h1 h2 h3]
  show ?thesis using h1 h2 h3 m by blast
qed

text \<open>
  C9. The operator's load maps every row to an object with \<open>id\<close>, \<open>sender\<close>, \<open>message\<close>
  and \<open>created_at\<close> only, so after a reload every message, a stored \<open>code_attempt\<close>
  included, is drawn as an ordinary chat bubble.
\<close>

theorem operator_load_drops_attempt_fields:
  assumes "net (Select_messages sid False)"
  shows "let d' = fst (loadMessages net sid (d, W))
         in messages d' = map to_local (db_select_messages sid False W)
          \<and> (\<forall>m \<in> set (messages d').
                lm_message_type m = None \<and> lm_is_correct m = None
              \<and> render_message m = Chat_bubble (lm_sender m) (lm_message m))
          \<and> (\<forall>r \<in> set (chat_messages W).
                session_id r = sid \<and> cm_message_type r = Code_attempt \<longrightarrow>
                  to_local r \<in> set (messages d')
                \<and> render_message (to_local r) = Chat_bubble (cm_sender r) (cm_message r))"
  using assms
  by (auto simp: Let_def loadMessages_ok set_db_select_messages to_local_def render_message_def)

theorem operator_load_drops_attempt_fields_witness:
  "all_ok (Select_messages (str ''s1'') False)
   \<and> ex_attempt \<in> set (chat_messages ex_world)
   \<and> session_id ex_attempt = str ''s1'' \<and> cm_message_type ex_attempt = Code_attempt
   \<and> to_local ex_attempt \<in> set (messages (fst (loadMessages all_ok (str ''s1'') (ex_dashboard, ex_world))))
   \<and> render_message (to_local ex_attempt) = Chat_bubble System (str ''000000'')"
proof -
  have h: "all_ok (Select_messages (str ''s1'') False)" by (simp add: all_ok_def)
  have m: "ex_attempt \<in> set (chat_messages ex_world)"
    "session_id ex_attempt = str ''s1''" "cm_message_type ex_attempt = Code_attempt"
    "cm_sender ex_attempt = System" "cm_message ex_attempt = str ''000000''"
    by (simp_all add: ex_world_def ex_attempt_def)
  from operator_load_drops_attempt_fields
         [where net = all_ok and sid = "(str ''s1'')" and d = ex_dashboard and W = ex_world, OF h]
  show ?thesis using h m unfolding Let_def by metis
qed



section \<open>Ending a conversation\<close>

text \<open>
  C5. Ending the conversation of the selected session broadcasts \<open>chat-ended\<close>, waits
  500 ms, asks the store to delete the messages of the session and then the session row,
  in this order, and leaves the dashboard without the session in its list, without a
  selection and with an empty transcript. Once the store has accepted a delete, a load of
  the history of that session id returns no message.

  While a session is selected its channel is open: the effect that follows the selection
  sets \<open>channelRef\<close>.
\<close>

theorem end_conversation_order_and_result:
  assumes "selectedSession d = Some s" and "channelRef d = Some ch"
  shows "let d' = fst (endConversation net (d, W));
             W' = snd (endConversation net (d, W));
             sid = vs_id s
         in issued W W' = [Broadcast ch Chat_ended, Wait 500, Delete_messages sid, Delete_session sid]
          \<and> sessions d' = filter (\<lambda>x. vs_id x \<noteq> sid) (sessions d)
          \<and> selectedSession d' = None
          \<and> messages d' = []
          \<and> (net (Delete_messages sid) \<longrightarrow>
               chat_messages W' = filter (\<lambda>m. session_id m \<noteq> sid) (chat_messages W))
          \<and> (net (Delete_session sid) \<longrightarrow>
               verification_sessions W' = filter (\<lambda>x. vs_id x \<noteq> sid) (verification_sessions W))
          \<and> (net (Delete_messages sid) \<or> net (Delete_session sid) \<longrightarrow>
               db_select_messages sid False W' = [] \<and> db_select_messages sid True W' = [])"
proof -
  have i: "issued W (snd (endConversation net (d, W)))
             = [Broadcast ch Chat_ended, Wait 500, Delete_messages (vs_id s), Delete_session (vs_id s)]"
    using assms
    by (simp add: endConversation_def Let_def remote_write_def emit_def issued_def
          db_delete_messages_def db_delete_session_def)
  have l: "fst (endConversation net (d, W)) =
             d\<lparr>sessions := filter (\<lambda>x. vs_id x \<noteq> vs_id s) (sessions d),
               selectedSession := None, messages := []\<rparr>"
    using assms by (simp add: endConversation_def Let_def)
  have m: "net (Delete_messages (vs_id s)) \<longrightarrow>
             chat_messages (snd (endConversation net (d, W)))
               = filter (\<lambda>m. session_id m \<noteq> vs_id s) (chat_messages W)"
    using assms
    by (simp add: endConversation_def Let_def remote_write_def emit_def
          db_delete_messages_def db_delete_session_def)
  have v: "net (Delete_session (vs_id s)) \<longrightarrow>
             verification_sessions (snd (endConversation net (d, W)))
               = filter (\<lambda>x. vs_id x \<noteq> vs_id s) (verification_sessions W)"
    using assms
    by (simp add: endConversation_def Let_def remote_write_def emit_def
          db_delete_messages_def db_delete_session_def)
  have h: "net (Delete_messages (vs_id s)) \<or> net (Delete_session (vs_id s)) \<longrightarrow>
             db_select_messages (vs_id s) b (snd (endConversation net (d, W))) = []" for b
    using assms
    by (simp add: endConversation_def Let_def remote_write_def emit_def
          db_delete_messages_def db_delete_session_def db_select_messages_def)
  show ?thesis using i m v h by (simp add: Let_def l)
qed

theorem end_conversation_order_and_result_witness:
  "selectedSession ex_selected = Some ex_session \<and> channelRef ex_selected = Some (str ''chat-s1'')
   \<and> issued ex_world (snd (endConversation all_ok (ex_selected, ex_world)))
       = [Broadcast (str ''chat-s1'') Chat_ended, Wait 500, Delete_messages (str ''s1''), Delete_session (str ''s1'')]
   \<and> chat_messages (snd (endConversation all_ok (ex_selected, ex_world))) = []
   \<and> verification_sessions (snd (endConversation all_ok (ex_selected, ex_world))) = []
   \<and> db_select_messages (str ''s1'') True (snd (endConversation all_ok (ex_selected, ex_world))) = []"
proof -
  have h: "selectedSession ex_selected = Some ex_session" "channelRef ex_selected = Some (str ''chat-s1'')"
    by (simp_all add: ex_selected_eq)
  have e: "vs_id ex_session = str ''s1''"
    "filter (\<lambda>m. session_id m \<noteq> (str ''s1'')) (chat_messages ex_world) = []"
    "filter (\<lambda>x. vs_id x \<noteq> (str ''s1'')) (verification_sessions ex_world) = []"
    by (simp_all add: ex_session_def ex_world_def ex_text_def ex_attempt_def)
  from end_conversation_order_and_result
         [where d = ex_selected and s = ex_session and ch = "(str ''chat-s1'')" and net = all_ok
            and W = ex_world, OF h]
  show ?thesis using h e by (simp add: Let_def all_ok_def)
qed

section \<open>Session creation\<close>

text \<open>
  C6. When the insert of the session returns no row, \<open>handleNext\<close> on the email step
  changes nothing but the processing flag, which it lowers again: the session id is the
  one held before, the step is still the email step, no timer is pending, and the form
  shows the email step with the input as it was.
\<close>

theorem failed_session_creation_leaves_email_step:
  assumes "formStep w = 1"
    and "\<not> net (Insert_session (fd_email (formData w)) [] Pending)"
    and "step w = Form" and "\<not> isSuccess w"
  shows "let w' = fst (handleNext net ev (w, W));
             W' = snd (handleNext net ev (w, W))
         in w' = w\<lparr>isProcessing := False\<rparr>
          \<and> sessionId w' = sessionId w
          \<and> \<not> isProcessing w'
          \<and> formStep w' = 1
          \<and> timeouts w' = timeouts w
          \<and> render w' = Form_view 1 (fd_email (formData w)) None
          \<and> verification_sessions W' = verification_sessions W
          \<and> chat_messages W' = chat_messages W"
  using assms
  by (simp add: handleNext_def createSessionWithEmail_def Let_def remote_write_def emit_def
        render_def steps_def)

theorem failed_session_creation_leaves_email_step_witness:
  "formStep ex_email_wizard = 1
   \<and> \<not> all_refused (Insert_session (fd_email (formData ex_email_wizard)) [] Pending)
   \<and> step ex_email_wizard = Form \<and> \<not> isSuccess ex_email_wizard
   \<and> sessionId (fst (handleNext all_refused ex_env (ex_email_wizard, ex_world))) = None
   \<and> render (fst (handleNext all_refused ex_env (ex_email_wizard, ex_world)))
       = Form_view 1 (str ''a@b.com'') None"
proof -
  have h: "formStep ex_email_wizard = 1"
    "\<not> all_refused (Insert_session (fd_email (formData ex_email_wizard)) [] Pending)"
    "step ex_email_wizard = Form" "\<not> isSuccess ex_email_wizard"
    by (simp_all add: ex_email_wizard_def ex_wizard_def all_refused_def)
  have e: "sessionId ex_email_wizard = None" "fd_email (formData ex_email_wizard) = str ''a@b.com''"
    by (simp_all add: ex_email_wizard_def ex_wizard_def)
  from failed_session_creation_leaves_email_step
         [where w = ex_email_wizard and net = all_refused and ev = ex_env and W = ex_world, OF h]
  have "sessionId (fst (handleNext all_refused ex_env (ex_email_wizard, ex_world)))
          = sessionId ex_email_wizard"
    and "render (fst (handleNext all_refused ex_env (ex_email_wizard, ex_world)))
          = Form_view 1 (fd_email (formData ex_email_wizard)) None"
    unfolding Let_def by blast+
  then show ?thesis using h e by simp
qed


section \<open>The session list\<close>

lemma fetchSessions_ok:
  "net Select_sessions \<Longrightarrow>
   fst (fetchSessions net held (d, W)) =
     (if 0 < length held \<and> length held < length (db_select_sessions W)
      then d\<lparr>newSessionAlert := True, alert_timeouts := alert_timeouts d + 1\<rparr>
      else d)\<lparr>sessions := db_select_sessions W\<rparr>"
  by (simp add: fetchSessions_def remote_read_def Let_def)

lemma interval_tick_keeps_alert:
  "newSessionAlert (fst (interval_tick net (d, W))) = newSessionAlert d
   \<and> alert_timeouts (fst (interval_tick net (d, W))) = alert_timeouts d"
  by (simp add: interval_tick_def fetchSessions_def remote_read_def Let_def)

text \<open>
  C7. A poll that finds more rows than the list held before should raise the
  notification. The dashboard has polled once and holds one session; a second session
  arrives. The next poll replaces the list, one row by two, and raises nothing: the timer
  runs the closure of the first render, whose \<open>sessions\<close> is \<open>[]\<close>, so
  \<open>sessions.length > 0\<close> fails. The refresh button, on the same state, raises it.
\<close>

theorem poll_misses_new_session:
  "sessions ex_polled = [ex_session]
   \<and> \<not> newSessionAlert ex_polled
   \<and> sessions (fst (interval_tick all_ok (ex_polled, ex_world2))) = [ex_session2, ex_session]
   \<and> \<not> newSessionAlert (fst (interval_tick all_ok (ex_polled, ex_world2)))
   \<and> alert_timeouts (fst (interval_tick all_ok (ex_polled, ex_world2))) = 0
   \<and> sessions (fst (click_refresh all_ok (ex_polled, ex_world2))) = [ex_session2, ex_session]
   \<and> newSessionAlert (fst (click_refresh all_ok (ex_polled, ex_world2)))"
proof -
  have a: "all_ok Select_sessions = True" by (simp add: all_ok_def)
  have r1: "db_select_sessions ex_world = [ex_session]"
    by (simp add: db_select_sessions_def ex_world_def)
  have r2: "db_select_sessions ex_world2 = [ex_session2, ex_session]"
    by (simp add: db_select_sessions_def ex_world2_def ex_world_def ex_session_def
          ex_session2_def)
  have p: "ex_polled = ex_dashboard\<lparr>sessions := [ex_session]\<rparr>"
    by (simp add: ex_polled_def interval_tick_def fetchSessions_ok a r1)
  have t: "fst (interval_tick all_ok (ex_polled, ex_world2))
             = ex_polled\<lparr>sessions := [ex_session2, ex_session]\<rparr>"
    by (simp add: interval_tick_def fetchSessions_ok a r2)
  have c: "fst (click_refresh all_ok (ex_polled, ex_world2))
             = ex_polled\<lparr>newSessionAlert := True, alert_timeouts := alert_timeouts ex_polled + 1,
                          sessions := [ex_session2, ex_session]\<rparr>"
    by (simp add: click_refresh_def fetchSessions_ok a r2 p)
  show ?thesis by (simp add: t c) (simp add: p ex_dashboard_def)
qed

section \<open>Sending a chat message\<close>

lemma blank_input_is_dropped:
  "trim inp = [] \<Longrightarrow> handleSend net ev inp (c, W) = (c, W)"
  "trim (newMessage d) = [] \<Longrightarrow> sendMessage net ev (d, V) = (d, V)"
  by (simp_all add: handleSend_def sendMessage_def split: option.splits)

text \<open>
  C8. A send with a non-blank input on an active session appends the new message to the
  local list and empties the input, in the user's window as on the dashboard. The
  resulting component state does not depend on what the store does with the insert or
  on the broadcast; the handler issues the insert once, and a refused insert leaves the
  table as it was.
\<close>

theorem optimistic_send_ignores_remote:
  assumes "trim inp \<noteq> []" and "cw_sessionId c = Some sid" and "\<not> chatEnded c"
    and "trim (newMessage d) \<noteq> []" and "selectedSession d = Some s"
  shows "fst (handleSend net ev inp (c, W))
           = c\<lparr>cw_messages := cw_messages c @ [user_msg ev inp], input := []\<rparr>
       \<and> length (filter is_insert_message (issued W (snd (handleSend net ev inp (c, W))))) = 1
       \<and> (\<not> net (Insert_message
                  \<lparr> p_id = Some (randomUUID ev), p_session_id = Some sid, p_sender = User,
                    p_message = trim inp, p_message_type = None, p_is_correct = None \<rparr>)
            \<longrightarrow> chat_messages (snd (handleSend net ev inp (c, W))) = chat_messages W)
       \<and> fst (sendMessage net ev (d, V))
           = d\<lparr>messages := messages d @ [admin_msg ev (newMessage d)], newMessage := []\<rparr>
       \<and> length (filter is_insert_message (issued V (snd (sendMessage net ev (d, V))))) = 1
       \<and> (\<not> net (Insert_message
                  \<lparr> p_id = Some (randomUUID ev), p_session_id = Some (vs_id s), p_sender = Admin,
                    p_message = trim (newMessage d), p_message_type = None, p_is_correct = None \<rparr>)
            \<longrightarrow> chat_messages (snd (sendMessage net ev (d, V))) = chat_messages V)"
proof -
  have u: "fst (handleSend net ev inp (c, W))
             = c\<lparr>cw_messages := cw_messages c @ [user_msg ev inp], input := []\<rparr>"
    using assms(1-3) by (simp add: handleSend_def Let_def user_msg_def)
  have ui: "length (filter is_insert_message (issued W (snd (handleSend net ev inp (c, W))))) = 1"
    using assms(1-3)
    by (simp add: handleSend_def Let_def remote_write_def emit_def issued_def
          db_insert_message_def split: option.splits)
  have ur: "\<not> net (Insert_message
                  \<lparr> p_id = Some (randomUUID ev), p_session_id = Some sid, p_sender = User,
                    p_message = trim inp, p_message_type = None, p_is_correct = None \<rparr>)
            \<longrightarrow> chat_messages (snd (handleSend net ev inp (c, W))) = chat_messages W"
    using assms(1-3)
    by (simp add: handleSend_def Let_def remote_write_def emit_def split: option.splits)
  have a: "fst (sendMessage net ev (d, V))
             = d\<lparr>messages := messages d @ [admin_msg ev (newMessage d)], newMessage := []\<rparr>"
    using assms(4,5) by (simp add: sendMessage_def Let_def admin_msg_def)
  have ai: "length (filter is_insert_message (issued V (snd (sendMessage net ev (d, V))))) = 1"
    using assms(4,5)
    by (simp add: sendMessage_def Let_def remote_write_def emit_def issued_def
          db_insert_message_def split: option.splits)
  have ar: "\<not> net (Insert_message
                  \<lparr> p_id = Some (randomUUID ev), p_session_id = Some (vs_id s), p_sender = Admin,
                    p_message = trim (newMessage d), p_message_type = None, p_is_correct = None \<rparr>)
            \<longrightarrow> chat_messages (snd (sendMessage net ev (d, V))) = chat_messages V"
    using assms(4,5)
    by (simp add: sendMessage_def Let_def remote_write_def emit_def split: option.splits)
  show ?thesis using u ui ur a ai ar by blast
qed

theorem optimistic_send_ignores_remote_witness:
  "trim [0xA0, 104, 105, 0x2028] \<noteq> [] \<and> cw_sessionId ex_chat = Some (str ''s1'')
   \<and> \<not> chatEnded ex_chat
   \<and> trim (newMessage (ex_selected\<lparr>newMessage := [0x3000, 111, 107]\<rparr>)) \<noteq> []
   \<and> selectedSession (ex_selected\<lparr>newMessage := [0x3000, 111, 107]\<rparr>) = Some ex_session
   \<and> cw_messages (fst (handleSend all_refused ex_env [0xA0, 104, 105, 0x2028] (ex_chat, ex_world)))
       = [user_msg ex_env [0xA0, 104, 105, 0x2028]]
   \<and> lm_message (user_msg ex_env [0xA0, 104, 105, 0x2028]) = str ''hi''
   \<and> chat_messages (snd (handleSend all_refused ex_env [0xA0, 104, 105, 0x2028] (ex_chat, ex_world)))
       = chat_messages ex_world
   \<and> newMessage (fst (sendMessage all_refused ex_env
                        (ex_selected\<lparr>newMessage := [0x3000, 111, 107]\<rparr>, ex_world))) = []
   \<and> messages (fst (sendMessage all_refused ex_env
                       (ex_selected\<lparr>newMessage := [0x3000, 111, 107]\<rparr>, ex_world)))
       = messages ex_selected @ [admin_msg ex_env [0x3000, 111, 107]]
   \<and> lm_message (admin_msg ex_env [0x3000, 111, 107]) = str ''ok''"
proof -
  have t: "trim [0xA0, 104, 105, 0x2028] = [104, 105]" by (simp add: trim_def is_ws_def)
  have u: "trim [0x3000, 111, 107] = [111, 107]" by (simp add: trim_def is_ws_def)
  have h1: "trim [0xA0, 104, 105, 0x2028] \<noteq> []" by (simp add: t)
  have h2: "cw_sessionId ex_chat = Some (str ''s1'')" "\<not> chatEnded ex_chat"
    by (simp_all add: ex_chat_def)
  have h3: "trim (newMessage (ex_selected\<lparr>newMessage := [0x3000, 111, 107]\<rparr>)) \<noteq> []"
    by (simp add: u)
  have h4: "selectedSession (ex_selected\<lparr>newMessage := [0x3000, 111, 107]\<rparr>) = Some ex_session"
    by (simp add: ex_selected_eq)
  have m: "cw_messages ex_chat = []" by (simp add: ex_chat_def)
  from optimistic_send_ignores_remote
         [where inp = "[0xA0, 104, 105, 0x2028]" and c = ex_chat and sid = "str ''s1''"
            and d = "ex_selected\<lparr>newMessage := [0x3000, 111, 107]\<rparr>" and s = ex_session
            and net = all_refused and ev = ex_env and W = ex_world and V = ex_world,
          OF h1 h2 h3 h4]
  show ?thesis using h1 h2 h3 h4 m t u
    by (simp add: all_refused_def user_msg_def admin_msg_def)
qed

end
